theory Spec2Isabelle
  imports Main "HOL-Library.Word"
begin

section \<open>The SecondOp\_FHE contract (src/contracts/SecondOp\_FHE.sol)\<close>

text \<open>
  A shallow embedding of the Solidity contract. Storage is an explicit state record that
  every external function takes and returns. A \<open>require\<close> that fails, a library call
  that reverts and an \<open>abi.decode\<close> that rejects its input are values of the type
  \<open>revert\<close>; a reverting function returns \<open>Inl\<close> of the reason together with the
  storage as it stood at the point of failure, a function that returns normally gives
  \<open>Inr\<close> of the new storage. View functions cannot write and return \<open>revert + result\<close>.
\<close>

subsection \<open>Solidity value types\<close>

type_synonym address = "160 word"
type_synonym uint256 = "256 word"
type_synonym uint32 = "32 word"
type_synonym bytes32 = "256 word"
type_synonym bytes = "8 word list"

text \<open>
  \<open>euint32\<close> and \<open>externalEuint32\<close> are user-defined value types over \<open>bytes32\<close>:
  a ciphertext handle. \<open>FHE.isInitialized\<close> tests the handle against zero and
  \<open>FHE.toBytes32\<close> unwraps it.
\<close>

type_synonym euint32 = bytes32
type_synonym externalEuint32 = bytes32

definition isInitialized :: "euint32 \<Rightarrow> bool" where
  "isInitialized v = (v \<noteq> 0)"

definition toBytes32 :: "euint32 \<Rightarrow> bytes32" where
  "toBytes32 v = v"

subsection \<open>Storage\<close>

record MedicalCase =
  patientId :: string
  encryptedDiagnosis :: euint32
  caseId :: uint256
  medicalHistory :: string
  specialist :: address
  timestamp :: uint256
  decryptedDiagnosis :: uint32
  isVerified :: bool

text \<open>The value a Solidity mapping holds at every key that was never written.\<close>

definition zero_case :: MedicalCase where
  "zero_case = \<lparr>patientId = [], encryptedDiagnosis = 0, caseId = 0, medicalHistory = [],
     specialist = 0, timestamp = 0, decryptedDiagnosis = 0, isVerified = False\<rparr>"

datatype event =
  MedicalCaseCreated string address
| DiagnosisVerified string uint32

text \<open>
  The two access-control calls the contract makes on the FHE library,
  \<open>FHE.allowThis\<close> and \<open>FHE.makePubliclyDecryptable\<close>, recorded in the order made.
\<close>

datatype acl_grant =
  AllowThis euint32
| MakePubliclyDecryptable euint32

record contract_state =
  medicalCases :: "string \<Rightarrow> MedicalCase"
  caseIds :: "string list"
  acl_grants :: "acl_grant list"
  events :: "event list"

definition init_state :: contract_state where
  "init_state = \<lparr>medicalCases = (\<lambda>_. zero_case), caseIds = [], acl_grants = [], events = []\<rparr>"

subsection \<open>Transaction environment\<close>

text \<open>
  \<open>msg.sender\<close> and \<open>block.timestamp\<close>, and the verdicts of the two checking functions
  of the FHE library, which is an external dependency and not part of the repository.
  \<open>FHE_fromExternal\<close> is \<open>None\<close> when the library reverts on the input proof and the
  admitted handle otherwise; \<open>FHE_checkSignatures\<close> is \<open>False\<close> when the library
  reverts on the decryption proof.
\<close>

record tx_env =
  msg_sender :: address
  block_timestamp :: uint256
  FHE_fromExternal :: "externalEuint32 \<Rightarrow> bytes \<Rightarrow> euint32 option"
  FHE_checkSignatures :: "bytes32 list \<Rightarrow> bytes \<Rightarrow> bytes \<Rightarrow> bool"

datatype revert =
  Require string
| InputProofRejected
| SignaturesRejected
| AbiDecodeFailed

subsection \<open>\<open>abi.decode(data, (uint32))\<close>\<close>

text \<open>
  The decoder of Solidity 0.8 reverts when the data is shorter than one 32-byte slot and
  when the slot, read as a big-endian integer, does not fit 32 bits; bytes after the first
  slot are ignored.
\<close>

definition be_uint :: "bytes \<Rightarrow> nat" where
  "be_uint bs = foldl (\<lambda>acc b. acc * 256 + unat b) 0 bs"

definition abi_decode_uint32 :: "bytes \<Rightarrow> uint32 option" where
  "abi_decode_uint32 b =
     (if length b < 32 then None
      else if be_uint (take 32 b) < 2 ^ 32 then Some (of_nat (be_uint (take 32 b)))
      else None)"

text \<open>\<open>abi.encode\<close> of a \<open>uint32\<close>: the value right-aligned in one 32-byte slot.\<close>

definition abi_encode_uint32 :: "uint32 \<Rightarrow> bytes" where
  "abi_encode_uint32 v =
     replicate 28 0 @
       [of_nat (unat v div 16777216), of_nat (unat v div 65536), of_nat (unat v div 256),
        of_nat (unat v)]"

subsection \<open>External functions\<close>

text \<open>
  \<open>createMedicalCase\<close> calls \<open>FHE.fromExternal\<close> twice on the same arguments, once
  inside the second \<open>require\<close> and once for the field of the new record; within one
  transaction both calls have the same verdict, so the model reads it once. The guards and
  the writes are in the order of the source.
\<close>

definition createMedicalCase ::
  "tx_env \<Rightarrow> contract_state \<Rightarrow> string \<Rightarrow> string \<Rightarrow> externalEuint32 \<Rightarrow> bytes \<Rightarrow> uint256 \<Rightarrow> string
     \<Rightarrow> (revert \<times> contract_state) + contract_state" where
  "createMedicalCase env s cid pid ext inputProof caseIdentifier history =
     (if \<not> (length (patientId (medicalCases s cid)) = 0)
      then Inl (Require ''Medical case already exists'', s)
      else case FHE_fromExternal env ext inputProof of
        None \<Rightarrow> Inl (InputProofRejected, s)
      | Some h \<Rightarrow>
          if \<not> isInitialized h then Inl (Require ''Invalid encrypted diagnosis'', s)
          else
            let s1 = s\<lparr>medicalCases := (medicalCases s)(cid :=
                       \<lparr>patientId = pid,
                        encryptedDiagnosis = h,
                        caseId = caseIdentifier,
                        medicalHistory = history,
                        specialist = msg_sender env,
                        timestamp = block_timestamp env,
                        decryptedDiagnosis = 0,
                        isVerified = False\<rparr>)\<rparr>;
                s2 = s1\<lparr>acl_grants := acl_grants s1 @
                       [AllowThis (encryptedDiagnosis (medicalCases s1 cid))]\<rparr>;
                s3 = s2\<lparr>acl_grants := acl_grants s2 @
                       [MakePubliclyDecryptable (encryptedDiagnosis (medicalCases s2 cid))]\<rparr>;
                s4 = s3\<lparr>caseIds := caseIds s3 @ [cid]\<rparr>
            in Inr (s4\<lparr>events := events s4 @ [MedicalCaseCreated cid (msg_sender env)]\<rparr>))"

definition verifyDiagnosis ::
  "tx_env \<Rightarrow> contract_state \<Rightarrow> string \<Rightarrow> bytes \<Rightarrow> bytes
     \<Rightarrow> (revert \<times> contract_state) + contract_state" where
  "verifyDiagnosis env s cid abiEncodedClearDiagnosis decryptionProof =
     (if \<not> (length (patientId (medicalCases s cid)) > 0)
      then Inl (Require ''Medical case does not exist'', s)
      else if isVerified (medicalCases s cid)
      then Inl (Require ''Diagnosis already verified'', s)
      else
        let cts = [toBytes32 (encryptedDiagnosis (medicalCases s cid))] in
        if \<not> FHE_checkSignatures env cts abiEncodedClearDiagnosis decryptionProof
        then Inl (SignaturesRejected, s)
        else case abi_decode_uint32 abiEncodedClearDiagnosis of
          None \<Rightarrow> Inl (AbiDecodeFailed, s)
        | Some decodedDiagnosis \<Rightarrow>
            let s1 = s\<lparr>medicalCases := (medicalCases s)(cid :=
                       (medicalCases s cid)\<lparr>decryptedDiagnosis := decodedDiagnosis\<rparr>)\<rparr>;
                s2 = s1\<lparr>medicalCases := (medicalCases s1)(cid :=
                       (medicalCases s1 cid)\<lparr>isVerified := True\<rparr>)\<rparr>
            in Inr (s2\<lparr>events := events s2 @ [DiagnosisVerified cid decodedDiagnosis]\<rparr>))"

definition getEncryptedDiagnosis :: "contract_state \<Rightarrow> string \<Rightarrow> revert + euint32" where
  "getEncryptedDiagnosis s cid =
     (if \<not> (length (patientId (medicalCases s cid)) > 0)
      then Inl (Require ''Medical case does not exist'')
      else Inr (encryptedDiagnosis (medicalCases s cid)))"

definition getMedicalCase ::
  "contract_state \<Rightarrow> string
     \<Rightarrow> revert + (string \<times> uint256 \<times> string \<times> address \<times> uint256 \<times> bool \<times> uint32)" where
  "getMedicalCase s cid =
     (if \<not> (length (patientId (medicalCases s cid)) > 0)
      then Inl (Require ''Medical case does not exist'')
      else
        let data = medicalCases s cid in
        Inr (patientId data, caseId data, medicalHistory data, specialist data,
             timestamp data, isVerified data, decryptedDiagnosis data))"

definition getAllCaseIds :: "contract_state \<Rightarrow> string list" where
  "getAllCaseIds s = caseIds s"

definition isAvailable :: bool where
  "isAvailable = True"

subsection \<open>Transactions\<close>

text \<open>
  A transaction that reverts leaves the storage of the chain as it was; one that returns
  commits the storage it returns. \<open>run\<close> applies a sequence of transactions in order.
\<close>

datatype call =
  CreateMedicalCase string string externalEuint32 bytes uint256 string
| VerifyDiagnosis string bytes bytes

fun attempt :: "contract_state \<Rightarrow> tx_env \<times> call \<Rightarrow> (revert \<times> contract_state) + contract_state" where
  "attempt s (env, CreateMedicalCase cid pid ext inputProof caseIdentifier history) =
     createMedicalCase env s cid pid ext inputProof caseIdentifier history"
| "attempt s (env, VerifyDiagnosis cid clear decryptionProof) =
     verifyDiagnosis env s cid clear decryptionProof"

definition transact :: "contract_state \<Rightarrow> tx_env \<times> call \<Rightarrow> contract_state" where
  "transact s tx = (case attempt s tx of Inl _ \<Rightarrow> s | Inr s' \<Rightarrow> s')"

fun run :: "contract_state \<Rightarrow> (tx_env \<times> call) list \<Rightarrow> contract_state" where
  "run s [] = s"
| "run s (tx # txs) = run (transact s tx) txs"

text \<open>The ids of the cases whose creation returned normally during a run, in order.\<close>

fun created_by :: "contract_state \<Rightarrow> tx_env \<times> call \<Rightarrow> string list" where
  "created_by s (env, CreateMedicalCase cid pid ext inputProof caseIdentifier history) =
     (case createMedicalCase env s cid pid ext inputProof caseIdentifier history of
        Inl _ \<Rightarrow> [] | Inr _ \<Rightarrow> [cid])"
| "created_by s (env, VerifyDiagnosis cid clear decryptionProof) = []"

fun created :: "contract_state \<Rightarrow> (tx_env \<times> call) list \<Rightarrow> string list" where
  "created s [] = []"
| "created s (tx # txs) = created_by s tx @ created (transact s tx) txs"

fun is_verify :: "tx_env \<times> call \<Rightarrow> bool" where
  "is_verify (env, VerifyDiagnosis cid clear decryptionProof) = True"
| "is_verify (env, CreateMedicalCase cid pid ext inputProof caseIdentifier history) = False"

subsection \<open>A sample environment\<close>

text \<open>
  For concrete runs: a library that admits an external handle as it is when the input
  proof is non-empty, and accepts a decryption proof when it is non-empty.
\<close>

definition sample_env :: "address \<Rightarrow> uint256 \<Rightarrow> tx_env" where
  "sample_env sender now =
     \<lparr>msg_sender = sender, block_timestamp = now,
      FHE_fromExternal = (\<lambda>ext inputProof. if inputProof = [] then None else Some ext),
      FHE_checkSignatures = (\<lambda>cts clear decryptionProof. decryptionProof \<noteq> [])\<rparr>"

section \<open>Basic facts\<close>

subsection \<open>Encoding and decoding a \<open>uint32\<close>\<close>

lemma be_uint_replicate_zero: "foldl (\<lambda>acc b. acc * 256 + unat b) 0 (replicate n (0::8 word)) = (0::nat)"
  by (induction n) simp_all

lemma unat_byte_of_nat: "unat (of_nat n :: 8 word) = n mod 256"
  by (simp add: unat_of_nat)

lemma base256_digits:
  fixes n :: nat
  assumes "n < 4294967296"
  shows "((n div 16777216 mod 256 * 256 + n div 65536 mod 256) * 256 + n div 256 mod 256) * 256
           + n mod 256 = n"
proof -
  define m1 where "m1 = n div 256"
  define m2 where "m2 = m1 div 256"
  define m3 where "m3 = m2 div 256"
  have d2: "n div 65536 = m2" 
    unfolding m2_def m1_def by (simp add: div_mult2_eq [symmetric])
  have d3: "n div 16777216 = m3"
    unfolding m3_def m2_def m1_def by (simp add: div_mult2_eq [symmetric])
  have small: "m3 < 256" using assms unfolding d3 [symmetric] by simp
  have e1: "n = m1 * 256 + n mod 256" unfolding m1_def by simp
  have e2: "m1 = m2 * 256 + m1 mod 256" unfolding m2_def by simp
  have e3: "m2 = m3 * 256 + m2 mod 256" unfolding m3_def by simp
  have "((m3 mod 256 * 256 + m2 mod 256) * 256 + m1 mod 256) * 256 + n mod 256
          = ((m3 * 256 + m2 mod 256) * 256 + m1 mod 256) * 256 + n mod 256"
    using small by simp
  also have "\<dots> = (m2 * 256 + m1 mod 256) * 256 + n mod 256" using e3 by simp
  also have "\<dots> = m1 * 256 + n mod 256" using e2 by simp
  also have "\<dots> = n" using e1 by simp
  finally show ?thesis unfolding d2 d3 m1_def [symmetric] .
qed

lemma be_uint_encode: "be_uint (abi_encode_uint32 v) = unat v"
proof -
  have lt: "unat v < 4294967296" using unsigned_less [of v] by simp
  have "be_uint (abi_encode_uint32 v) =
      ((unat v div 16777216 mod 256 * 256 + unat v div 65536 mod 256) * 256
        + unat v div 256 mod 256) * 256 + unat v mod 256"
    unfolding be_uint_def abi_encode_uint32_def foldl_append be_uint_replicate_zero
    by (simp only: foldl.simps unat_byte_of_nat mult_0 add_0)
  also have "\<dots> = unat v" using lt by (rule base256_digits)
  finally show ?thesis .
qed

lemma abi_decode_encode: "abi_decode_uint32 (abi_encode_uint32 v) = Some v"
proof -
  have len: "length (abi_encode_uint32 v) = 32" by (simp add: abi_encode_uint32_def)
  have lt: "unat v < 2 ^ 32" using unsigned_less [of v] by simp
  show ?thesis
    using lt by (simp add: abi_decode_uint32_def len be_uint_encode)
qed

subsection \<open>What a call returns\<close>

lemma createMedicalCase_Inl:
  "createMedicalCase env s cid pid ext pf ident hist = Inl (e, sf) \<Longrightarrow> sf = s"
  by (auto simp: createMedicalCase_def Let_def split: if_splits option.splits)

lemma verifyDiagnosis_Inl:
  "verifyDiagnosis env s cid clear pf = Inl (e, sf) \<Longrightarrow> sf = s"
  by (auto simp: verifyDiagnosis_def Let_def split: if_splits option.splits)

lemma createMedicalCase_Inr:
  assumes "createMedicalCase env s cid pid ext pf ident hist = Inr s'"
  shows "patientId (medicalCases s cid) = []"
    and "\<exists>h. FHE_fromExternal env ext pf = Some h \<and> h \<noteq> 0 \<and>
           medicalCases s' = (medicalCases s)(cid :=
             \<lparr>patientId = pid, encryptedDiagnosis = h, caseId = ident, medicalHistory = hist,
              specialist = msg_sender env, timestamp = block_timestamp env,
              decryptedDiagnosis = 0, isVerified = False\<rparr>) \<and>
           acl_grants s' = acl_grants s @ [AllowThis h, MakePubliclyDecryptable h]"
    and "caseIds s' = caseIds s @ [cid]"
    and "events s' = events s @ [MedicalCaseCreated cid (msg_sender env)]"
  using assms
  by (auto simp: createMedicalCase_def Let_def isInitialized_def split: if_splits option.splits)

lemma createMedicalCase_succeeds:
  assumes "patientId (medicalCases s cid) = []" and "FHE_fromExternal env ext pf = Some h"
    and "h \<noteq> 0"
  shows "\<exists>s'. createMedicalCase env s cid pid ext pf ident hist = Inr s'"
  using assms by (simp add: createMedicalCase_def Let_def isInitialized_def)

lemma createMedicalCase_exists:
  assumes "patientId (medicalCases s cid) \<noteq> []"
  shows "createMedicalCase env s cid pid ext pf ident hist =
           Inl (Require ''Medical case already exists'', s)"
  using assms by (simp add: createMedicalCase_def)

lemma verifyDiagnosis_Inr:
  assumes "verifyDiagnosis env s cid clear pf = Inr s'"
  shows "patientId (medicalCases s cid) \<noteq> []"
    and "\<not> isVerified (medicalCases s cid)"
    and "FHE_checkSignatures env [encryptedDiagnosis (medicalCases s cid)] clear pf"
    and "\<exists>v. abi_decode_uint32 clear = Some v \<and>
           medicalCases s' = (medicalCases s)(cid :=
             (medicalCases s cid)\<lparr>decryptedDiagnosis := v, isVerified := True\<rparr>) \<and>
           events s' = events s @ [DiagnosisVerified cid v]"
    and "caseIds s' = caseIds s"
    and "acl_grants s' = acl_grants s"
  using assms
  by (auto simp: verifyDiagnosis_def Let_def toBytes32_def split: if_splits option.splits)

lemma verifyDiagnosis_missing:
  assumes "patientId (medicalCases s cid) = []"
  shows "verifyDiagnosis env s cid clear pf = Inl (Require ''Medical case does not exist'', s)"
  using assms by (simp add: verifyDiagnosis_def)

lemma verifyDiagnosis_verified:
  assumes "patientId (medicalCases s cid) \<noteq> []" and "isVerified (medicalCases s cid)"
  shows "verifyDiagnosis env s cid clear pf = Inl (Require ''Diagnosis already verified'', s)"
  using assms by (simp add: verifyDiagnosis_def)

lemma attempt_Inl: "attempt s tx = Inl (e, sf) \<Longrightarrow> sf = s"
proof (cases tx)
  case (Pair env c)
  assume "attempt s tx = Inl (e, sf)"
  with Pair show ?thesis
    by (cases c) (auto dest: createMedicalCase_Inl verifyDiagnosis_Inl)
qed

lemma transact_caseIds: "caseIds (transact s tx) = caseIds s @ created_by s tx"
proof (cases tx)
  case (Pair env c)
  show ?thesis
  proof (cases c)
    case (CreateMedicalCase cid pid ext pf ident hist)
    with Pair show ?thesis
      by (auto simp: transact_def split: sum.splits dest: createMedicalCase_Inr(3))
  next
    case (VerifyDiagnosis cid clear pf)
    with Pair show ?thesis
      by (auto simp: transact_def split: sum.splits dest: verifyDiagnosis_Inr(5))
  qed
qed

lemma run_caseIds: "caseIds (run s txs) = caseIds s @ created s txs"
  by (induction txs arbitrary: s) (simp_all add: transact_caseIds)

lemma run_append: "run s (txs @ txs') = run (run s txs) txs'"
  by (induction txs arbitrary: s) simp_all

text \<open>A record whose patientId is non-empty is only ever touched by its one verification.\<close>

lemma transact_existing:
  assumes "patientId (medicalCases s c) \<noteq> []"
  shows "medicalCases (transact s tx) c = medicalCases s c \<or>
         (\<not> isVerified (medicalCases s c) \<and>
          (\<exists>v. medicalCases (transact s tx) c =
                 (medicalCases s c)\<lparr>decryptedDiagnosis := v, isVerified := True\<rparr>))"
proof (cases tx)
  case (Pair env cl)
  show ?thesis
  proof (cases cl)
    case (CreateMedicalCase cid pid ext pf ident hist)
    show ?thesis
    proof (cases "createMedicalCase env s cid pid ext pf ident hist")
      case (Inl a)
      with Pair CreateMedicalCase show ?thesis by (simp add: transact_def)
    next
      case (Inr s')
      from createMedicalCase_Inr(1) [OF Inr] assms have "cid \<noteq> c" by auto
      moreover from createMedicalCase_Inr(2) [OF Inr]
      obtain r where "medicalCases s' = (medicalCases s)(cid := r)" by blast
      ultimately have "medicalCases s' c = medicalCases s c" by simp
      with Pair CreateMedicalCase Inr show ?thesis by (simp add: transact_def)
    qed
  next
    case (VerifyDiagnosis cid clear pf)
    show ?thesis
    proof (cases "verifyDiagnosis env s cid clear pf")
      case (Inl a)
      with Pair VerifyDiagnosis show ?thesis by (simp add: transact_def)
    next
      case (Inr s')
      from verifyDiagnosis_Inr(4) [OF Inr] obtain v where
        upd: "medicalCases s' = (medicalCases s)(cid :=
                (medicalCases s cid)\<lparr>decryptedDiagnosis := v, isVerified := True\<rparr>)"
        by blast
      have tr: "transact s tx = s'"
        using Pair VerifyDiagnosis Inr by (simp add: transact_def)
      show ?thesis
      proof (cases "cid = c")
        case True
        with verifyDiagnosis_Inr(2) [OF Inr] upd tr show ?thesis by auto
      next
        case False
        with upd tr show ?thesis by simp
      qed
    qed
  qed
qed

lemma transact_verified:
  assumes "patientId (medicalCases s c) \<noteq> []" and "isVerified (medicalCases s c)"
  shows "medicalCases (transact s tx) c = medicalCases s c"
  using transact_existing [OF assms(1), of tx] assms(2) by blast

lemma run_verified:
  assumes "patientId (medicalCases s c) \<noteq> []" and "isVerified (medicalCases s c)"
  shows "medicalCases (run s txs) c = medicalCases s c"
  using assms
proof (induction txs arbitrary: s)
  case Nil
  then show ?case by simp
next
  case (Cons tx txs)
  have same: "medicalCases (transact s tx) c = medicalCases s c"
    using Cons.prems by (rule transact_verified)
  with Cons.prems have "medicalCases (run (transact s tx) txs) c = medicalCases (transact s tx) c"
    by (intro Cons.IH) simp_all
  with same show ?case by simp
qed

lemma transact_unwritten:
  assumes "c \<notin> set (created_by s tx)" and "patientId (medicalCases s c) = []"
  shows "medicalCases (transact s tx) c = medicalCases s c"
proof (cases tx)
  case (Pair env cl)
  show ?thesis
  proof (cases cl)
    case (CreateMedicalCase cid pid ext pf ident hist)
    show ?thesis
    proof (cases "createMedicalCase env s cid pid ext pf ident hist")
      case (Inl a)
      with Pair CreateMedicalCase show ?thesis by (simp add: transact_def)
    next
      case (Inr s')
      with assms(1) Pair CreateMedicalCase have "cid \<noteq> c" by auto
      moreover from createMedicalCase_Inr(2) [OF Inr]
      obtain r where "medicalCases s' = (medicalCases s)(cid := r)" by blast
      ultimately have "medicalCases s' c = medicalCases s c" by simp
      with Pair CreateMedicalCase Inr show ?thesis by (simp add: transact_def)
    qed
  next
    case (VerifyDiagnosis cid clear pf)
    show ?thesis
    proof (cases "verifyDiagnosis env s cid clear pf")
      case (Inl a)
      with Pair VerifyDiagnosis show ?thesis by (simp add: transact_def)
    next
      case (Inr s')
      from verifyDiagnosis_Inr(1) [OF Inr] assms(2) have "cid \<noteq> c" by auto
      moreover from verifyDiagnosis_Inr(4) [OF Inr]
      obtain r where "medicalCases s' = (medicalCases s)(cid := r)" by blast
      ultimately have "medicalCases s' c = medicalCases s c" by simp
      with Pair VerifyDiagnosis Inr show ?thesis by (simp add: transact_def)
    qed
  qed
qed

lemma run_unwritten:
  assumes "c \<notin> set (created s txs)" and "patientId (medicalCases s c) = []"
  shows "medicalCases (run s txs) c = medicalCases s c"
  using assms
proof (induction txs arbitrary: s)
  case Nil
  then show ?case by simp
next
  case (Cons tx txs)
  from Cons.prems have same: "medicalCases (transact s tx) c = medicalCases s c"
    by (intro transact_unwritten) simp_all
  with Cons.prems have "medicalCases (run (transact s tx) txs) c = medicalCases (transact s tx) c"
    by (intro Cons.IH) simp_all
  with same show ?case by simp
qed

lemma created_verify_only: "list_all is_verify txs \<Longrightarrow> created s txs = []"
proof (induction txs arbitrary: s)
  case Nil
  then show ?case by simp
next
  case (Cons tx txs)
  obtain env cl where tx: "tx = (env, cl)" by (cases tx)
  with Cons.prems have "created_by s tx = []" by (cases cl) simp_all
  with Cons show ?case by simp
qed

subsection \<open>Runs of the sample environment\<close>

lemma sample_create:
  "createMedicalCase (sample_env a t) init_state cid pid 5 [1] ident hist =
     Inr \<lparr>medicalCases = (\<lambda>_. zero_case)(cid :=
            \<lparr>patientId = pid, encryptedDiagnosis = 5, caseId = ident, medicalHistory = hist,
             specialist = a, timestamp = t, decryptedDiagnosis = 0, isVerified = False\<rparr>),
          caseIds = [cid], acl_grants = [AllowThis 5, MakePubliclyDecryptable 5],
          events = [MedicalCaseCreated cid a]\<rparr>"
  by (simp add: createMedicalCase_def sample_env_def init_state_def zero_case_def Let_def
      isInitialized_def)

lemma sample_verify:
  assumes "patientId (medicalCases s cid) \<noteq> []" and "\<not> isVerified (medicalCases s cid)"
  shows "verifyDiagnosis (sample_env a t) s cid (abi_encode_uint32 v) [1] =
     Inr (s\<lparr>medicalCases := (medicalCases s)(cid :=
              (medicalCases s cid)\<lparr>decryptedDiagnosis := v, isVerified := True\<rparr>),
            events := events s @ [DiagnosisVerified cid v]\<rparr>)"
  using assms
  by (simp add: verifyDiagnosis_def sample_env_def abi_decode_encode Let_def)

lemma sample_create_at:
  assumes "patientId (medicalCases s cid) = []" and "ext \<noteq> 0" and "ip \<noteq> []"
  shows "createMedicalCase (sample_env a t) s cid pid ext ip ident hist =
     Inr (s\<lparr>medicalCases := (medicalCases s)(cid :=
              \<lparr>patientId = pid, encryptedDiagnosis = ext, caseId = ident, medicalHistory = hist,
               specialist = a, timestamp = t, decryptedDiagnosis = 0, isVerified = False\<rparr>),
            acl_grants := acl_grants s @ [AllowThis ext, MakePubliclyDecryptable ext],
            caseIds := caseIds s @ [cid],
            events := events s @ [MedicalCaseCreated cid a]\<rparr>)"
  using assms
  by (simp add: createMedicalCase_def sample_env_def Let_def isInitialized_def)

lemma init_state_empty: "patientId (medicalCases init_state cid) = []"
  by (simp add: init_state_def zero_case_def)

section \<open>Properties of the registry\<close>

text \<open>
  C1. The specification asks that a second \<open>createMedicalCase\<close> on the same id always reverts with
  "Medical case already exists" and leaves the first record alone, also when the
  \<open>patientId\<close> is empty. Evaluated on the contract: after a first creation of "case1"
  with an empty \<open>patientId\<close>, a second creation of "case1" does not revert with that
  reason, both creations return normally, and the stored record is no longer the first one.
\<close>

theorem empty_patientId_lets_create_repeat:
  "createMedicalCase (sample_env 1 100) init_state ''case1'' [] 5 [1] 42 ''history''
     = Inr (run init_state
         [(sample_env 1 100, CreateMedicalCase ''case1'' [] 5 [1] 42 ''history'')]) \<and>
   createMedicalCase (sample_env 2 200)
       (run init_state [(sample_env 1 100, CreateMedicalCase ''case1'' [] 5 [1] 42 ''history'')])
       ''case1'' ''p2'' 6 [1] 43 ''other''
     \<noteq> Inl (Require ''Medical case already exists'',
          run init_state [(sample_env 1 100, CreateMedicalCase ''case1'' [] 5 [1] 42 ''history'')]) \<and>
   created init_state
       [(sample_env 1 100, CreateMedicalCase ''case1'' [] 5 [1] 42 ''history''),
        (sample_env 2 200, CreateMedicalCase ''case1'' ''p2'' 6 [1] 43 ''other'')]
     = [''case1'', ''case1''] \<and>
   medicalCases (run init_state
       [(sample_env 1 100, CreateMedicalCase ''case1'' [] 5 [1] 42 ''history''),
        (sample_env 2 200, CreateMedicalCase ''case1'' ''p2'' 6 [1] 43 ''other'')]) ''case1''
     \<noteq> medicalCases (run init_state
       [(sample_env 1 100, CreateMedicalCase ''case1'' [] 5 [1] 42 ''history'')]) ''case1''"
  by (simp add: transact_def sample_create sample_create_at)

text \<open>
  C2. After \<open>verifyDiagnosis\<close> has returned normally on a cleartext that encodes \<open>v\<close>
  (any byte string that \<open>abi.decode\<close> reads as \<open>v\<close>, \<open>abi.encode(v)\<close> among them by
  \<open>abi_decode_encode\<close>), \<open>getMedicalCase\<close> reports \<open>isVerified = true\<close> and
  \<open>decryptedDiagnosis = v\<close>; after any further transactions, every \<open>verifyDiagnosis\<close>
  on that id reverts with "Diagnosis already verified" and the decrypted value is still \<open>v\<close>.
\<close>

theorem verified_diagnosis_is_final:
  assumes ok: "verifyDiagnosis env s cid clear dp = Inr s'"
    and dec: "abi_decode_uint32 clear = Some v"
  shows "getMedicalCase s' cid =
           Inr (patientId (medicalCases s cid), caseId (medicalCases s cid),
                medicalHistory (medicalCases s cid), specialist (medicalCases s cid),
                timestamp (medicalCases s cid), True, v) \<and>
         verifyDiagnosis env' (run s' txs) cid clear' dp'
           = Inl (Require ''Diagnosis already verified'', run s' txs) \<and>
         getMedicalCase (run s' txs) cid = getMedicalCase s' cid \<and>
         decryptedDiagnosis (medicalCases (run s' txs) cid) = v"
proof -
  from verifyDiagnosis_Inr(4) [OF ok] dec
  have rec: "medicalCases s' cid = (medicalCases s cid)\<lparr>decryptedDiagnosis := v, isVerified := True\<rparr>"
    by auto
  have present: "patientId (medicalCases s' cid) \<noteq> []"
    using verifyDiagnosis_Inr(1) [OF ok] rec by simp
  have verified: "isVerified (medicalCases s' cid)" using rec by simp
  have frozen: "medicalCases (run s' txs) cid = medicalCases s' cid"
    using present verified by (rule run_verified)
  have 1: "getMedicalCase s' cid =
           Inr (patientId (medicalCases s cid), caseId (medicalCases s cid),
                medicalHistory (medicalCases s cid), specialist (medicalCases s cid),
                timestamp (medicalCases s cid), True, v)"
    using present rec by (simp add: getMedicalCase_def Let_def)
  have 2: "verifyDiagnosis env' (run s' txs) cid clear' dp'
           = Inl (Require ''Diagnosis already verified'', run s' txs)"
    using present verified frozen by (intro verifyDiagnosis_verified) simp_all
  have 3: "getMedicalCase (run s' txs) cid = getMedicalCase s' cid"
    using frozen by (simp add: getMedicalCase_def)
  have 4: "decryptedDiagnosis (medicalCases (run s' txs) cid) = v"
    using frozen rec by simp
  from 1 2 3 4 show ?thesis by blast
qed

theorem verified_diagnosis_is_final_witness:
  "\<exists>s s'. createMedicalCase (sample_env 1 100) init_state ''case1'' ''p1'' 5 [1] 42 ''history''
            = Inr s \<and>
          verifyDiagnosis (sample_env 2 200) s ''case1'' (abi_encode_uint32 7) [1] = Inr s' \<and>
          abi_decode_uint32 (abi_encode_uint32 7) = Some 7 \<and>
          getMedicalCase s' ''case1'' = Inr (''p1'', 42, ''history'', 1, 100, True, 7) \<and>
          verifyDiagnosis (sample_env 3 300)
              (run s' [(sample_env 1 250, CreateMedicalCase ''case1'' ''p9'' 6 [1] 43 ''other'')])
              ''case1'' (abi_encode_uint32 9) [1]
            = Inl (Require ''Diagnosis already verified'',
                run s' [(sample_env 1 250, CreateMedicalCase ''case1'' ''p9'' 6 [1] 43 ''other'')]) \<and>
          decryptedDiagnosis (medicalCases
              (run s' [(sample_env 1 250, CreateMedicalCase ''case1'' ''p9'' 6 [1] 43 ''other'')])
              ''case1'') = 7"
proof -
  obtain s where c: "createMedicalCase (sample_env 1 100) init_state ''case1'' ''p1'' 5 [1] 42
      ''history'' = Inr s"
    by (simp add: sample_create)
  from createMedicalCase_Inr(2) [OF c]
  have rec: "medicalCases s ''case1'' =
      \<lparr>patientId = ''p1'', encryptedDiagnosis = 5, caseId = 42, medicalHistory = ''history'',
       specialist = 1, timestamp = 100, decryptedDiagnosis = 0, isVerified = False\<rparr>"
    by (auto simp: sample_env_def)
  then obtain s' where v: "verifyDiagnosis (sample_env 2 200) s ''case1'' (abi_encode_uint32 7) [1]
      = Inr s'"
    by (simp add: sample_verify)
  have d: "abi_decode_uint32 (abi_encode_uint32 7) = Some 7" by (rule abi_decode_encode)
  from verified_diagnosis_is_final [OF v d, of "sample_env 3 300"
      "[(sample_env 1 250, CreateMedicalCase ''case1'' ''p9'' 6 [1] 43 ''other'')]"
      "abi_encode_uint32 9" "[1]"] rec c v d
  show ?thesis by auto
qed

text \<open>
  C3. The specification asks that \<open>caseIds\<close> never holds an id twice. The list is append-only and
  holds the ids of the creations that returned, in order (\<open>run_caseIds\<close>), but evaluated
  on the contract, two creations of "case1", the first with an empty \<open>patientId\<close>, make
  \<open>getAllCaseIds\<close> return ["case1", "case1"].
\<close>

theorem caseIds_can_hold_an_id_twice:
  "getAllCaseIds (run init_state
       [(sample_env 1 100, CreateMedicalCase ''case1'' [] 5 [1] 42 ''history''),
        (sample_env 2 200, CreateMedicalCase ''case1'' ''p2'' 6 [1] 43 ''other'')])
     = [''case1'', ''case1''] \<and>
   \<not> distinct (getAllCaseIds (run init_state
       [(sample_env 1 100, CreateMedicalCase ''case1'' [] 5 [1] 42 ''history''),
        (sample_env 2 200, CreateMedicalCase ''case1'' ''p2'' 6 [1] 43 ''other'')]))"
  by (simp add: transact_def sample_create sample_create_at getAllCaseIds_def)

text \<open>
  C4. The specification asks that a stored record never changes except in \<open>decryptedDiagnosis\<close>
  and \<open>isVerified\<close>. That holds for every record with a non-empty \<open>patientId\<close>
  (\<open>transact_existing\<close>), but evaluated on the contract, the record stored for "case1"
  with an empty \<open>patientId\<close> is replaced in every field by a second creation.
\<close>

theorem record_with_empty_patientId_is_overwritten:
  "medicalCases (run init_state
       [(sample_env 1 100, CreateMedicalCase ''case1'' [] 5 [1] 42 ''history'')]) ''case1''
     = \<lparr>patientId = [], encryptedDiagnosis = 5, caseId = 42, medicalHistory = ''history'',
        specialist = 1, timestamp = 100, decryptedDiagnosis = 0, isVerified = False\<rparr> \<and>
   medicalCases (run init_state
       [(sample_env 1 100, CreateMedicalCase ''case1'' [] 5 [1] 42 ''history''),
        (sample_env 2 200, CreateMedicalCase ''case1'' ''p2'' 6 [1] 43 ''other'')]) ''case1''
     = \<lparr>patientId = ''p2'', encryptedDiagnosis = 6, caseId = 43, medicalHistory = ''other'',
        specialist = 2, timestamp = 200, decryptedDiagnosis = 0, isVerified = False\<rparr>"
  by (simp add: transact_def sample_create sample_create_at)

text \<open>
  C5. Every operation validates before it writes. When \<open>createMedicalCase\<close> reverts, for
  whatever reason, the storage at the point of failure is the storage it was called on, so
  the transaction leaves no record and \<open>caseIds\<close> as it was; when \<open>verifyDiagnosis\<close>
  reverts (missing case, already verified, signatures rejected, or a cleartext that does not
  decode), the stored record is exactly as it was.
\<close>

theorem failed_call_writes_nothing:
  "(createMedicalCase env s cid pid ext ip ident hist = Inl (e, sf) \<longrightarrow>
      sf = s \<and> transact s (env, CreateMedicalCase cid pid ext ip ident hist) = s \<and>
      medicalCases (transact s (env, CreateMedicalCase cid pid ext ip ident hist)) cid
        = medicalCases s cid \<and>
      caseIds (transact s (env, CreateMedicalCase cid pid ext ip ident hist)) = caseIds s) \<and>
   (verifyDiagnosis env s cid clear dp = Inl (e, sf) \<longrightarrow>
      sf = s \<and> transact s (env, VerifyDiagnosis cid clear dp) = s \<and>
      medicalCases (transact s (env, VerifyDiagnosis cid clear dp)) cid = medicalCases s cid)"
proof (intro conjI impI)
  assume f: "createMedicalCase env s cid pid ext ip ident hist = Inl (e, sf)"
  then show "sf = s" by (rule createMedicalCase_Inl)
  from f show tr: "transact s (env, CreateMedicalCase cid pid ext ip ident hist) = s"
    by (simp add: transact_def)
  from tr show "medicalCases (transact s (env, CreateMedicalCase cid pid ext ip ident hist)) cid
        = medicalCases s cid" by simp
  from tr show "caseIds (transact s (env, CreateMedicalCase cid pid ext ip ident hist)) = caseIds s"
    by simp
next
  assume f: "verifyDiagnosis env s cid clear dp = Inl (e, sf)"
  then show "sf = s" by (rule verifyDiagnosis_Inl)
  from f show tr: "transact s (env, VerifyDiagnosis cid clear dp) = s"
    by (simp add: transact_def)
  from tr show "medicalCases (transact s (env, VerifyDiagnosis cid clear dp)) cid
      = medicalCases s cid" by simp
qed

theorem failed_call_writes_nothing_witness:
  "createMedicalCase (sample_env 1 100) init_state ''case1'' ''p1'' 5 [] 42 ''history''
     = Inl (InputProofRejected, init_state) \<and>
   verifyDiagnosis (sample_env 1 100) init_state ''case1'' (abi_encode_uint32 7) [1]
     = Inl (Require ''Medical case does not exist'', init_state) \<and>
   transact init_state (sample_env 1 100, CreateMedicalCase ''case1'' ''p1'' 5 [] 42 ''history'')
     = init_state \<and>
   transact init_state (sample_env 1 100, VerifyDiagnosis ''case1'' (abi_encode_uint32 7) [1])
     = init_state"
proof -
  have c: "createMedicalCase (sample_env 1 100) init_state ''case1'' ''p1'' 5 [] 42 ''history''
     = Inl (InputProofRejected, init_state)"
    by (simp add: createMedicalCase_def sample_env_def init_state_def zero_case_def)
  have v: "verifyDiagnosis (sample_env 1 100) init_state ''case1'' (abi_encode_uint32 7) [1]
     = Inl (Require ''Medical case does not exist'', init_state)"
    by (simp add: verifyDiagnosis_def init_state_def zero_case_def)
  from failed_call_writes_nothing [of "sample_env 1 100" init_state "''case1''" "''p1''" 5 "[]"
      42 "''history''" InputProofRejected init_state "abi_encode_uint32 7" "[1]"] c
  have 1: "transact init_state
      (sample_env 1 100, CreateMedicalCase ''case1'' ''p1'' 5 [] 42 ''history'') = init_state"
    by blast
  from failed_call_writes_nothing [of "sample_env 1 100" init_state "''case1''" "''p1''" 5 "[]"
      42 "''history''" "Require ''Medical case does not exist''" init_state
      "abi_encode_uint32 7" "[1]"] v
  have 2: "transact init_state
      (sample_env 1 100, VerifyDiagnosis ''case1'' (abi_encode_uint32 7) [1]) = init_state"
    by blast
  from c v 1 2 show ?thesis by blast
qed

text \<open>
  C6. For a case id whose creation never returned normally in the history of the contract,
  \<open>verifyDiagnosis\<close>, \<open>getMedicalCase\<close> and \<open>getEncryptedDiagnosis\<close> all revert with
  "Medical case does not exist", and the storage is unchanged.
\<close>

theorem never_created_is_not_found:
  assumes "cid \<notin> set (created init_state txs)"
  shows "verifyDiagnosis env (run init_state txs) cid clear dp
           = Inl (Require ''Medical case does not exist'', run init_state txs) \<and>
         transact (run init_state txs) (env, VerifyDiagnosis cid clear dp) = run init_state txs \<and>
         getMedicalCase (run init_state txs) cid = Inl (Require ''Medical case does not exist'') \<and>
         getEncryptedDiagnosis (run init_state txs) cid
           = Inl (Require ''Medical case does not exist'')"
proof -
  have "patientId (medicalCases init_state cid) = []"
    by (simp add: init_state_def zero_case_def)
  with assms have "medicalCases (run init_state txs) cid = medicalCases init_state cid"
    by (rule run_unwritten)
  then have empty: "patientId (medicalCases (run init_state txs) cid) = []"
    by (simp add: init_state_def zero_case_def)
  then have v: "verifyDiagnosis env (run init_state txs) cid clear dp
           = Inl (Require ''Medical case does not exist'', run init_state txs)"
    by (rule verifyDiagnosis_missing)
  then have "transact (run init_state txs) (env, VerifyDiagnosis cid clear dp) = run init_state txs"
    by (simp add: transact_def)
  moreover from empty have "getMedicalCase (run init_state txs) cid
      = Inl (Require ''Medical case does not exist'')"
    by (simp add: getMedicalCase_def)
  moreover from empty have "getEncryptedDiagnosis (run init_state txs) cid
      = Inl (Require ''Medical case does not exist'')"
    by (simp add: getEncryptedDiagnosis_def)
  ultimately show ?thesis using v by blast
qed

theorem never_created_is_not_found_witness:
  "''case2'' \<notin> set (created init_state
      [(sample_env 1 100, CreateMedicalCase ''case1'' ''p1'' 5 [1] 42 ''history''),
       (sample_env 1 101, CreateMedicalCase ''case2'' ''p2'' 6 [] 43 ''history'')]) \<and>
   getMedicalCase (run init_state
      [(sample_env 1 100, CreateMedicalCase ''case1'' ''p1'' 5 [1] 42 ''history''),
       (sample_env 1 101, CreateMedicalCase ''case2'' ''p2'' 6 [] 43 ''history'')]) ''case2''
     = Inl (Require ''Medical case does not exist'') \<and>
   getEncryptedDiagnosis (run init_state
      [(sample_env 1 100, CreateMedicalCase ''case1'' ''p1'' 5 [1] 42 ''history''),
       (sample_env 1 101, CreateMedicalCase ''case2'' ''p2'' 6 [] 43 ''history'')]) ''case2''
     = Inl (Require ''Medical case does not exist'') \<and>
   verifyDiagnosis (sample_env 2 102) (run init_state
      [(sample_env 1 100, CreateMedicalCase ''case1'' ''p1'' 5 [1] 42 ''history''),
       (sample_env 1 101, CreateMedicalCase ''case2'' ''p2'' 6 [] 43 ''history'')]) ''case2''
      (abi_encode_uint32 7) [1]
     = Inl (Require ''Medical case does not exist'', run init_state
      [(sample_env 1 100, CreateMedicalCase ''case1'' ''p1'' 5 [1] 42 ''history''),
       (sample_env 1 101, CreateMedicalCase ''case2'' ''p2'' 6 [] 43 ''history'')])"
proof -
  have h: "''case2'' \<notin> set (created init_state
      [(sample_env 1 100, CreateMedicalCase ''case1'' ''p1'' 5 [1] 42 ''history''),
       (sample_env 1 101, CreateMedicalCase ''case2'' ''p2'' 6 [] 43 ''history'')])"
    by (simp add: sample_create transact_def)
       (simp add: createMedicalCase_def sample_env_def zero_case_def)
  from never_created_is_not_found [OF h, of "sample_env 2 102" "abi_encode_uint32 7" "[1]"] h
  show ?thesis by blast
qed

text \<open>
  C7. Creating "A", "B" and "C" in that order on the empty contract, each call returning
  normally, makes \<open>getAllCaseIds\<close> return exactly ["A", "B", "C"]; any sequence of
  \<open>verifyDiagnosis\<close> transactions afterwards, whether they return or revert, leaves that
  list as it is; on the empty contract \<open>getAllCaseIds\<close> returns the empty list.
\<close>

theorem enumeration_order:
  assumes "createMedicalCase e1 init_state ''A'' p1 x1 ip1 n1 h1 = Inr s1"
    and "createMedicalCase e2 s1 ''B'' p2 x2 ip2 n2 h2 = Inr s2"
    and "createMedicalCase e3 s2 ''C'' p3 x3 ip3 n3 h3 = Inr s3"
    and "list_all is_verify txs"
  shows "getAllCaseIds s3 = [''A'', ''B'', ''C''] \<and>
         getAllCaseIds (run s3 txs) = [''A'', ''B'', ''C''] \<and>
         getAllCaseIds init_state = []"
proof -
  have "caseIds s3 = [''A'', ''B'', ''C'']"
    using createMedicalCase_Inr(3) [OF assms(1)] createMedicalCase_Inr(3) [OF assms(2)]
      createMedicalCase_Inr(3) [OF assms(3)]
    by (simp add: init_state_def)
  moreover have "caseIds (run s3 txs) = caseIds s3"
    using created_verify_only [OF assms(4)] by (simp add: run_caseIds)
  moreover have "caseIds init_state = []" by (simp add: init_state_def)
  ultimately show ?thesis by (simp add: getAllCaseIds_def)
qed

theorem enumeration_order_witness:
  "\<exists>s1 s2 s3.
     createMedicalCase (sample_env 1 100) init_state ''A'' ''p1'' 5 [1] 41 ''h1'' = Inr s1 \<and>
     createMedicalCase (sample_env 2 200) s1 ''B'' ''p2'' 6 [1] 42 ''h2'' = Inr s2 \<and>
     createMedicalCase (sample_env 1 300) s2 ''C'' ''p3'' 7 [1] 43 ''h3'' = Inr s3 \<and>
     list_all is_verify
       [(sample_env 3 400, VerifyDiagnosis ''B'' (abi_encode_uint32 7) [1]),
        (sample_env 3 500, VerifyDiagnosis ''C'' (abi_encode_uint32 8) [])] \<and>
     getAllCaseIds s3 = [''A'', ''B'', ''C''] \<and>
     getAllCaseIds (run s3
       [(sample_env 3 400, VerifyDiagnosis ''B'' (abi_encode_uint32 7) [1]),
        (sample_env 3 500, VerifyDiagnosis ''C'' (abi_encode_uint32 8) [])]) = [''A'', ''B'', ''C'']"
proof -
  obtain s1 where c1: "createMedicalCase (sample_env 1 100) init_state ''A'' ''p1'' 5 [1] 41 ''h1''
      = Inr s1"
    by (simp add: sample_create)
  have "patientId (medicalCases s1 ''B'') = []"
    using createMedicalCase_Inr(2) [OF c1] by (auto simp: init_state_empty)
  then obtain s2 where c2: "createMedicalCase (sample_env 2 200) s1 ''B'' ''p2'' 6 [1] 42 ''h2''
      = Inr s2"
    by (simp add: sample_create_at)
  have "patientId (medicalCases s2 ''C'') = []"
    using createMedicalCase_Inr(2) [OF c1] createMedicalCase_Inr(2) [OF c2]
    by (auto simp: init_state_empty)
  then obtain s3 where c3: "createMedicalCase (sample_env 1 300) s2 ''C'' ''p3'' 7 [1] 43 ''h3''
      = Inr s3"
    by (simp add: sample_create_at)
  have v: "list_all is_verify
       [(sample_env 3 400, VerifyDiagnosis ''B'' (abi_encode_uint32 7) [1]),
        (sample_env 3 500, VerifyDiagnosis ''C'' (abi_encode_uint32 8) [])]"
    by simp
  from enumeration_order [OF c1 c2 c3 v] c1 c2 c3 v show ?thesis by blast
qed

text \<open>
  C8. When \<open>createMedicalCase\<close> returns normally, the handle stored in the new record is
  the one the library admitted, and the call has made \<open>FHE.allowThis\<close> and then
  \<open>FHE.makePubliclyDecryptable\<close> on exactly that handle before returning.
\<close>

theorem create_grants_the_stored_handle:
  assumes "createMedicalCase env s cid pid ext ip ident hist = Inr s'"
  shows "FHE_fromExternal env ext ip = Some (encryptedDiagnosis (medicalCases s' cid)) \<and>
         isInitialized (encryptedDiagnosis (medicalCases s' cid)) \<and>
         acl_grants s' = acl_grants s @
           [AllowThis (encryptedDiagnosis (medicalCases s' cid)),
            MakePubliclyDecryptable (encryptedDiagnosis (medicalCases s' cid))]"
  using createMedicalCase_Inr(2) [OF assms] by (auto simp: isInitialized_def)

theorem create_grants_the_stored_handle_witness:
  "\<exists>s'. createMedicalCase (sample_env 1 100) init_state ''case1'' ''p1'' 5 [1] 42 ''history''
          = Inr s' \<and>
        encryptedDiagnosis (medicalCases s' ''case1'') = 5 \<and>
        acl_grants s' = [AllowThis 5, MakePubliclyDecryptable 5]"
proof -
  obtain s' where h: "createMedicalCase (sample_env 1 100) init_state ''case1'' ''p1'' 5 [1] 42
      ''history'' = Inr s'"
    by (simp add: sample_create)
  have "FHE_fromExternal (sample_env 1 100) 5 [1] = Some 5" by (simp add: sample_env_def)
  with create_grants_the_stored_handle [OF h] have "encryptedDiagnosis (medicalCases s' ''case1'') = 5"
    by simp
  moreover with create_grants_the_stored_handle [OF h]
  have "acl_grants s' = [AllowThis 5, MakePubliclyDecryptable 5]"
    by (simp add: init_state_def)
  ultimately show ?thesis using h by blast
qed

text \<open>
  C9. The outcome of \<open>verifyDiagnosis\<close> does not depend on the caller: from the same
  storage and with the same arguments, any two senders get the same result, revert or
  return, and leave the same storage.
\<close>

theorem verify_ignores_the_caller:
  "verifyDiagnosis (env\<lparr>msg_sender := a\<rparr>) s cid clear dp
     = verifyDiagnosis (env\<lparr>msg_sender := b\<rparr>) s cid clear dp \<and>
   transact s (env\<lparr>msg_sender := a\<rparr>, VerifyDiagnosis cid clear dp)
     = transact s (env\<lparr>msg_sender := b\<rparr>, VerifyDiagnosis cid clear dp)"
  by (simp add: verifyDiagnosis_def transact_def)

text \<open>
  C10. Whether a case exists is decided by the stored \<open>patientId\<close> alone: each guard
  fires exactly when it is (non-)empty. So a \<open>createMedicalCase\<close> with an empty
  \<open>patientId\<close>, on an id not yet in use and with a ciphertext the library admits,
  returns normally, stores its record and appends the id to \<open>caseIds\<close>; as long as no
  later creation on that id returns, \<open>verifyDiagnosis\<close>, \<open>getMedicalCase\<close> and
  \<open>getEncryptedDiagnosis\<close> on it revert with "Medical case does not exist"; and a later
  \<open>createMedicalCase\<close> on the same id returns normally again, replaces the record and
  appends the id a second time.
\<close>

theorem existence_is_nonempty_patientId:
  assumes fresh: "patientId (medicalCases s cid) = []"
    and admA: "FHE_fromExternal envA extA ipA = Some hA" and initA: "isInitialized hA"
    and admB: "FHE_fromExternal envB extB ipB = Some hB" and initB: "isInitialized hB"
    and sA: "sA = transact s (envA, CreateMedicalCase cid [] extA ipA nA histA)"
    and later: "cid \<notin> set (created sA txs)"
    and sB: "sB = transact (run sA txs) (envB, CreateMedicalCase cid pidB extB ipB nB histB)"
  shows "createMedicalCase envA s cid [] extA ipA nA histA = Inr sA \<and>
         medicalCases sA cid =
           \<lparr>patientId = [], encryptedDiagnosis = hA, caseId = nA, medicalHistory = histA,
            specialist = msg_sender envA, timestamp = block_timestamp envA,
            decryptedDiagnosis = 0, isVerified = False\<rparr> \<and>
         caseIds sA = caseIds s @ [cid] \<and>
         verifyDiagnosis env (run sA txs) cid clear dp
           = Inl (Require ''Medical case does not exist'', run sA txs) \<and>
         getMedicalCase (run sA txs) cid = Inl (Require ''Medical case does not exist'') \<and>
         getEncryptedDiagnosis (run sA txs) cid = Inl (Require ''Medical case does not exist'') \<and>
         createMedicalCase envB (run sA txs) cid pidB extB ipB nB histB = Inr sB \<and>
         medicalCases sB cid =
           \<lparr>patientId = pidB, encryptedDiagnosis = hB, caseId = nB, medicalHistory = histB,
            specialist = msg_sender envB, timestamp = block_timestamp envB,
            decryptedDiagnosis = 0, isVerified = False\<rparr> \<and>
         caseIds sB = caseIds s @ [cid] @ created sA txs @ [cid] \<and>
         (createMedicalCase env t c pid ext ip n hist
            = Inl (Require ''Medical case already exists'', t))
           = (patientId (medicalCases t c) \<noteq> []) \<and>
         (verifyDiagnosis env t c clear dp = Inl (Require ''Medical case does not exist'', t))
           = (patientId (medicalCases t c) = []) \<and>
         (getMedicalCase t c = Inl (Require ''Medical case does not exist''))
           = (patientId (medicalCases t c) = []) \<and>
         (getEncryptedDiagnosis t c = Inl (Require ''Medical case does not exist''))
           = (patientId (medicalCases t c) = [])"
proof -
  have k1: "(createMedicalCase env t c pid ext ip n hist
            = Inl (Require ''Medical case already exists'', t))
           = (patientId (medicalCases t c) \<noteq> [])"
    by (simp add: createMedicalCase_def Let_def split: option.splits)
  have k2: "(verifyDiagnosis env t c clear dp = Inl (Require ''Medical case does not exist'', t))
           = (patientId (medicalCases t c) = [])"
    by (simp add: verifyDiagnosis_def Let_def split: option.splits)
  have k3: "(getMedicalCase t c = Inl (Require ''Medical case does not exist''))
           = (patientId (medicalCases t c) = [])"
    by (simp add: getMedicalCase_def Let_def)
  have k4: "(getEncryptedDiagnosis t c = Inl (Require ''Medical case does not exist''))
           = (patientId (medicalCases t c) = [])"
    by (simp add: getEncryptedDiagnosis_def)
  from initA initB have nz: "hA \<noteq> 0" "hB \<noteq> 0" by (simp_all add: isInitialized_def)
  from createMedicalCase_succeeds [OF fresh admA nz(1)]
  obtain t where t: "createMedicalCase envA s cid [] extA ipA nA histA = Inr t" by blast
  then have cA: "createMedicalCase envA s cid [] extA ipA nA histA = Inr sA"
    by (simp add: sA transact_def)
  from createMedicalCase_Inr(2) [OF cA] admA
  have rA: "medicalCases sA cid =
           \<lparr>patientId = [], encryptedDiagnosis = hA, caseId = nA, medicalHistory = histA,
            specialist = msg_sender envA, timestamp = block_timestamp envA,
            decryptedDiagnosis = 0, isVerified = False\<rparr>"
    by auto
  have idsA: "caseIds sA = caseIds s @ [cid]" by (rule createMedicalCase_Inr(3) [OF cA])
  have eA: "patientId (medicalCases sA cid) = []" using rA by simp
  with later have "medicalCases (run sA txs) cid = medicalCases sA cid" by (rule run_unwritten)
  with eA have e: "patientId (medicalCases (run sA txs) cid) = []" by simp
  then have v: "verifyDiagnosis env (run sA txs) cid clear dp
           = Inl (Require ''Medical case does not exist'', run sA txs)"
    by (rule verifyDiagnosis_missing)
  from e have g: "getMedicalCase (run sA txs) cid = Inl (Require ''Medical case does not exist'')"
    by (simp add: getMedicalCase_def)
  from e have g': "getEncryptedDiagnosis (run sA txs) cid
      = Inl (Require ''Medical case does not exist'')"
    by (simp add: getEncryptedDiagnosis_def)
  from createMedicalCase_succeeds [OF e admB nz(2)]
  obtain u where "createMedicalCase envB (run sA txs) cid pidB extB ipB nB histB = Inr u" by blast
  then have cB: "createMedicalCase envB (run sA txs) cid pidB extB ipB nB histB = Inr sB"
    by (simp add: sB transact_def)
  from createMedicalCase_Inr(2) [OF cB] admB
  have rB: "medicalCases sB cid =
           \<lparr>patientId = pidB, encryptedDiagnosis = hB, caseId = nB, medicalHistory = histB,
            specialist = msg_sender envB, timestamp = block_timestamp envB,
            decryptedDiagnosis = 0, isVerified = False\<rparr>"
    by auto
  have idsB: "caseIds sB = caseIds s @ [cid] @ created sA txs @ [cid]"
    using createMedicalCase_Inr(3) [OF cB] idsA by (simp add: run_caseIds)
  from cA rA idsA v g g' cB rB idsB k1 k2 k3 k4 show ?thesis by blast
qed

theorem existence_is_nonempty_patientId_witness:
  "patientId (medicalCases init_state ''case1'') = [] \<and>
   FHE_fromExternal (sample_env 1 100) 5 [1] = Some 5 \<and> isInitialized 5 \<and>
   FHE_fromExternal (sample_env 2 200) 6 [1] = Some 6 \<and> isInitialized 6 \<and>
   ''case1'' \<notin> set (created
      (transact init_state (sample_env 1 100, CreateMedicalCase ''case1'' [] 5 [1] 42 ''history''))
      [(sample_env 3 150, VerifyDiagnosis ''case1'' (abi_encode_uint32 7) [1])]) \<and>
   getMedicalCase (run
      (transact init_state (sample_env 1 100, CreateMedicalCase ''case1'' [] 5 [1] 42 ''history''))
      [(sample_env 3 150, VerifyDiagnosis ''case1'' (abi_encode_uint32 7) [1])]) ''case1''
     = Inl (Require ''Medical case does not exist'') \<and>
   caseIds (transact (run
      (transact init_state (sample_env 1 100, CreateMedicalCase ''case1'' [] 5 [1] 42 ''history''))
      [(sample_env 3 150, VerifyDiagnosis ''case1'' (abi_encode_uint32 7) [1])])
      (sample_env 2 200, CreateMedicalCase ''case1'' ''p2'' 6 [1] 43 ''other''))
     = [''case1'', ''case1'']"
proof -
  have a1: "FHE_fromExternal (sample_env 1 100) 5 [1] = Some 5"
    and a2: "FHE_fromExternal (sample_env 2 200) 6 [1] = Some 6"
    by (simp_all add: sample_env_def)
  have i1: "isInitialized 5" and i2: "isInitialized 6" by (simp_all add: isInitialized_def)
  have none: "created
      (transact init_state (sample_env 1 100, CreateMedicalCase ''case1'' [] 5 [1] 42 ''history''))
      [(sample_env 3 150, VerifyDiagnosis ''case1'' (abi_encode_uint32 7) [1])] = []"
    by (rule created_verify_only) simp
  then have l: "''case1'' \<notin> set (created
      (transact init_state (sample_env 1 100, CreateMedicalCase ''case1'' [] 5 [1] 42 ''history''))
      [(sample_env 3 150, VerifyDiagnosis ''case1'' (abi_encode_uint32 7) [1])])"
    by simp
  have ids: "caseIds init_state = []" by (simp add: init_state_def)
  from existence_is_nonempty_patientId [where nA = 42 and histA = "''history''"
      and pidB = "''p2''" and nB = 43 and histB = "''other''",
      OF init_state_empty a1 i1 a2 i2 refl l refl] none ids init_state_empty a1 a2 i1 i2 l
  show ?thesis by simp
qed

end
